theory Spec2Isabelle
  imports Complex_Main
begin

section \<open>Python strings\<close>

text \<open>
  A Python \<^verbatim>\<open>str\<close> is a sequence of Unicode code points. A code point is a natural
  number here and a string a list of them, so that whitespace beyond Latin-1 and the
  Devanagari, Tamil, ... texts the service translates are ordinary inputs. \<open>lit\<close> turns an
  ASCII literal of the source into such a string.
\<close>

type_synonym pystr = "nat list"

definition lit :: "string \<Rightarrow> pystr" where
  "lit s = map of_char s"

text \<open>
  The code points \<^verbatim>\<open>str.isspace\<close>, \<^verbatim>\<open>str.strip()\<close> and \<^verbatim>\<open>str.split()\<close> treat as whitespace
  (CPython's \<^verbatim>\<open>_PyUnicode_IsWhitespace\<close>): TAB..CR, FS..US, SPACE, NEL, NBSP, OGHAM SPACE
  MARK, EN QUAD..HAIR SPACE, LINE and PARAGRAPH SEPARATOR, NARROW NBSP, MEDIUM
  MATHEMATICAL SPACE, IDEOGRAPHIC SPACE.
\<close>

definition isspace :: "nat \<Rightarrow> bool" where
  "isspace c \<longleftrightarrow>
     (9 \<le> c \<and> c \<le> 13) \<or> (28 \<le> c \<and> c \<le> 32) \<or> c = 133 \<or> c = 160 \<or> c = 5760 \<or>
     (8192 \<le> c \<and> c \<le> 8202) \<or> c = 8232 \<or> c = 8233 \<or> c = 8239 \<or> c = 8287 \<or> c = 12288"

text \<open>\<^verbatim>\<open>s.strip()\<close>: leading and trailing whitespace removed.\<close>

definition strip :: "pystr \<Rightarrow> pystr" where
  "strip s = rev (dropWhile isspace (rev (dropWhile isspace s)))"

text \<open>
  \<^verbatim>\<open>s.split()\<close>: the maximal runs of non-whitespace, in order. \<open>split_scan cur s\<close> scans
  \<open>s\<close> from the left as CPython's loop does; \<open>cur\<close> is the word being read, reversed.
\<close>

fun split_scan :: "pystr \<Rightarrow> pystr \<Rightarrow> pystr list" where
  "split_scan cur [] = (if cur = [] then [] else [rev cur])"
| "split_scan cur (c # cs) =
     (if isspace c then (if cur = [] then split_scan [] cs else rev cur # split_scan [] cs)
      else split_scan (c # cur) cs)"

definition split :: "pystr \<Rightarrow> pystr list" where
  "split s = split_scan [] s"

text \<open>\<^verbatim>\<open>str(n)\<close> for an integer, as an f-string substitutes it: decimal, \<^verbatim>\<open>-\<close> when negative.\<close>

function str_nat :: "nat \<Rightarrow> pystr" where
  "str_nat n = (if n < 10 then [48 + n] else str_nat (n div 10) @ [48 + n mod 10])"
  by pat_completeness auto
termination
  by (relation "measure id") auto

definition str_int :: "int \<Rightarrow> pystr" where
  "str_int i = (if i < 0 then 45 # str_nat (nat (- i)) else str_nat (nat i))"

text \<open>
  \<^verbatim>\<open>s.lower()\<close>. On an ASCII string it maps \<^verbatim>\<open>A\<close>..\<^verbatim>\<open>Z\<close> to \<^verbatim>\<open>a\<close>..\<^verbatim>\<open>z\<close>; on any other
  string the result comes from the Unicode case-mapping tables of the interpreter, which
  are taken as the parameter \<open>unicode_lower\<close>.
\<close>

definition ascii_lower :: "nat \<Rightarrow> nat" where
  "ascii_lower c = (if 65 \<le> c \<and> c \<le> 90 then c + 32 else c)"

definition lower :: "(pystr \<Rightarrow> pystr) \<Rightarrow> pystr \<Rightarrow> pystr" where
  "lower unicode_lower s =
     (if list_all (\<lambda>c. c < 128) s then map ascii_lower s else unicode_lower s)"

section \<open>Values, dictionaries, exceptions\<close>

text \<open>
  The values that occur in request and response dictionaries. \<open>VRef a\<close> is a reference to
  the dictionary object stored at address \<open>a\<close> of the heap (used where aliasing matters: the
  language registry and its copies); \<open>VDict\<close> and \<open>VList\<close> are freshly built, unshared
  containers, carried by value.
\<close>

datatype pyval =
    VNone
  | VBool bool
  | VInt int
  | VFloat rat
  | VStr pystr
  | VList "pyval list"
  | VDict "(pystr \<times> pyval) list"
  | VRef nat

text \<open>A dictionary in insertion order; a lookup finds the entry of a key.\<close>

type_synonym pydict = "(pystr \<times> pyval) list"

definition dict_get :: "pydict \<Rightarrow> pystr \<Rightarrow> pyval \<Rightarrow> pyval" where
  "dict_get d k dflt = (case map_of d k of None \<Rightarrow> dflt | Some v \<Rightarrow> v)"

definition contains :: "pydict \<Rightarrow> pystr \<Rightarrow> bool" where
  "contains d k \<longleftrightarrow> k \<in> fst ` set d"

definition len :: "pydict \<Rightarrow> nat" where
  "len d = length (remdups (map fst d))"

text \<open>
  An exception of class \<^verbatim>\<open>Exception\<close>, the class every handler of the source names. The
  handlers read nothing of it but \<^verbatim>\<open>str(e)\<close>. (\<^verbatim>\<open>KeyboardInterrupt\<close> and \<^verbatim>\<open>SystemExit\<close>
  are not of that class and are not raised by any code modelled here.)
\<close>

datatype exn = Exception (str_of: pystr)

fun type_name :: "pyval \<Rightarrow> pystr" where
  "type_name VNone = lit ''NoneType''"
| "type_name (VBool _) = lit ''bool''"
| "type_name (VInt _) = lit ''int''"
| "type_name (VFloat _) = lit ''float''"
| "type_name (VStr _) = lit ''str''"
| "type_name (VList _) = lit ''list''"
| "type_name (VDict _) = lit ''dict''"
| "type_name (VRef _) = lit ''dict''"

text \<open>
  Calling the string method \<open>name\<close> (\<open>f\<close> in the model) on a value: on anything but a string
  the attribute lookup raises
  \<^verbatim>\<open>AttributeError: 'int' object has no attribute 'strip'\<close>. Code point 39 is the apostrophe.
\<close>

definition str_method :: "(pystr \<Rightarrow> pystr) \<Rightarrow> string \<Rightarrow> pyval \<Rightarrow> exn + pystr" where
  "str_method f name v =
     (case v of
        VStr s \<Rightarrow> Inr (f s)
      | _ \<Rightarrow> Inl (Exception ([39] @ type_name v @ [39] @ lit '' object has no attribute '' @
                              [39] @ lit name @ [39])))"

section \<open>The process state and its environment\<close>

text \<open>
  What the code reads from outside itself is the environment: the wall clock
  (\<open>clock env k\<close> is the value of the \<open>k\<close>-th call of \<^verbatim>\<open>time.time()\<close> in the process, in
  seconds), the three stages of the backend (tokenizer call, \<^verbatim>\<open>model.generate\<close>,
  \<^verbatim>\<open>tokenizer.decode(outputs[0])\<close>; each returns or raises), the two import flags, the
  model directory, the outcome of \<^verbatim>\<open>from_pretrained\<close>, and Python's floating-point
  formatting. Clock values are exact rationals; every binary floating-point number is one.
\<close>

record ('i, 'o) env =
  clock :: "nat \<Rightarrow> rat"
  tokenizer :: "pystr \<Rightarrow> exn + 'i"
  generate :: "'i \<Rightarrow> int \<Rightarrow> int \<Rightarrow> exn + 'o"
  decode :: "'o \<Rightarrow> exn + pystr"
  format_speed :: "nat \<Rightarrow> int \<Rightarrow> pystr"
    \<comment> \<open>\<^verbatim>\<open>f"{n / (d / 1000):.1f}"\<close> for \<open>d \<noteq> 0\<close>\<close>
  unicode_lower :: "pystr \<Rightarrow> pystr"
  TRANSFORMERS_AVAILABLE :: bool
  TORCH_AVAILABLE :: bool
  model_dir_exists :: bool
  from_pretrained_raises :: bool
  total_size_gb :: "exn + rat"
    \<comment> \<open>the directory scan of \<^verbatim>\<open>get_model_info\<close>: the rounded size, or the exception it logs\<close>

datatype backend_call = Tokenize pystr | Generate int int | Decode

text \<open>
  The mutable state of the process: the heap of dictionary objects with its allocation
  pointer, the number of clock readings taken so far, the backend calls made so far, and
  the flags \<^verbatim>\<open>TranslationInference._model_loaded\<close> and
  \<^verbatim>\<open>TranslationAPIWrapper._initialized\<close> of the two singletons.
\<close>

record world =
  heap :: "nat \<Rightarrow> pydict"
  next_addr :: nat
  ticks :: nat
  calls :: "backend_call list"
  model_loaded :: bool
  initialized :: bool

definition time_time :: "('i, 'o) env \<Rightarrow> world \<Rightarrow> rat \<times> world" where
  "time_time env w = (clock env (ticks w), w\<lparr>ticks := Suc (ticks w)\<rparr>)"

text \<open>\<^verbatim>\<open>int(x)\<close> truncates towards zero.\<close>

definition py_int :: "rat \<Rightarrow> int" where
  "py_int x = (if 0 \<le> x then \<lfloor>x\<rfloor> else \<lceil>x\<rceil>)"

text \<open>\<^verbatim>\<open>int((time.time() - start_time) * 1000)\<close>, given the two readings.\<close>

definition elapsed_ms :: "rat \<Rightarrow> rat \<Rightarrow> int" where
  "elapsed_ms start_time now = py_int ((now - start_time) * 1000)"

section \<open>inference.py: the language registry and the validator\<close>

text \<open>
  The class attribute \<^verbatim>\<open>SUPPORTED_LANGUAGES\<close> is one dictionary object, created when the
  class is defined. It lives at address \<open>registry\<close>; \<open>SUPPORTED_LANGUAGES\<close> is the
  literal it is created from.
\<close>

definition registry :: nat where
  "registry = 0"

definition SUPPORTED_LANGUAGES :: pydict where
  "SUPPORTED_LANGUAGES =
    [(lit ''hi'', VStr (lit ''Hindi'')), (lit ''ta'', VStr (lit ''Tamil'')),
     (lit ''te'', VStr (lit ''Telugu'')), (lit ''kn'', VStr (lit ''Kannada'')),
     (lit ''ml'', VStr (lit ''Malayalam'')), (lit ''mr'', VStr (lit ''Marathi'')),
     (lit ''gu'', VStr (lit ''Gujarati'')), (lit ''bn'', VStr (lit ''Bengali'')),
     (lit ''pa'', VStr (lit ''Punjabi'')), (lit ''or'', VStr (lit ''Odia'')),
     (lit ''as'', VStr (lit ''Assamese'')), (lit ''ur'', VStr (lit ''Urdu'')),
     (lit ''sa'', VStr (lit ''Sanskrit'')), (lit ''kok'', VStr (lit ''Konkani'')),
     (lit ''mni'', VStr (lit ''Manipuri'')), (lit ''mai'', VStr (lit ''Maithili'')),
     (lit ''sd'', VStr (lit ''Sindhi'')), (lit ''ks'', VStr (lit ''Kashmiri'')),
     (lit ''dg'', VStr (lit ''Dogri'')), (lit ''bodo'', VStr (lit ''Bodo'')),
     (lit ''sat'', VStr (lit ''Santali'')), (lit ''en'', VStr (lit ''English''))]"

definition init_world :: world where
  "init_world =
     \<lparr>heap = (\<lambda>a. if a = registry then SUPPORTED_LANGUAGES else []), next_addr = Suc registry,
      ticks = 0, calls = [], model_loaded = False, initialized = False\<rparr>"

definition validate_input :: "world \<Rightarrow> pystr \<Rightarrow> pystr \<Rightarrow> pystr \<Rightarrow> int \<Rightarrow> bool \<times> pystr option" where
  "validate_input w text source_lang target_lang max_words =
     (if text = [] \<or> strip text = [] then (False, Some (lit ''Text cannot be empty''))
      else
        let word_count = int (length (split (strip text))) in
        if word_count > max_words then
          (False, Some (lit ''Text exceeds maximum of '' @ str_int max_words @
                        lit '' words (got '' @ str_int word_count @ lit '')''))
        else if \<not> contains (heap w registry) source_lang then
          (False, Some (lit ''Unsupported source language: '' @ source_lang))
        else if \<not> contains (heap w registry) target_lang then
          (False, Some (lit ''Unsupported target language: '' @ target_lang))
        else if source_lang = target_lang then
          (False, Some (lit ''Source and target languages must be different''))
        else (True, None))"

section \<open>inference.py: loading and translating\<close>

definition is_available :: "('i, 'o) env \<Rightarrow> bool" where
  "is_available env \<longleftrightarrow> TRANSFORMERS_AVAILABLE env \<and> TORCH_AVAILABLE env"

text \<open>
  \<^verbatim>\<open>load_model\<close>: the clock is read once before \<^verbatim>\<open>from_pretrained\<close> and once more
  when both calls have returned.
\<close>

definition load_model :: "('i, 'o) env \<Rightarrow> world \<Rightarrow> bool \<times> world" where
  "load_model env w =
     (if model_loaded w then (True, w)
      else if \<not> is_available env then (False, w)
      else if \<not> model_dir_exists env then (False, w)
      else
        let (load_start_time, w1) = time_time env w in
        if from_pretrained_raises env then (False, w1\<lparr>model_loaded := False\<rparr>)
        else
          let (now, w2) = time_time env w1 in (True, w2\<lparr>model_loaded := True\<rparr>))"

text \<open>The two shapes of a failure dictionary: with and without \<^verbatim>\<open>duration_ms\<close>.\<close>

definition failure :: "pyval \<Rightarrow> int \<Rightarrow> pydict" where
  "failure error duration_ms =
     [(lit ''success'', VBool False), (lit ''error'', error), (lit ''duration_ms'', VInt duration_ms)]"

definition error_response :: "pystr \<Rightarrow> pydict" where
  "error_response error = [(lit ''success'', VBool False), (lit ''error'', VStr error)]"

definition optional_str :: "pystr option \<Rightarrow> pyval" where
  "optional_str m = (case m of None \<Rightarrow> VNone | Some s \<Rightarrow> VStr s)"

definition record_call :: "backend_call \<Rightarrow> world \<Rightarrow> world" where
  "record_call c w = w\<lparr>calls := calls w @ [c]\<rparr>"

text \<open>
  The \<^verbatim>\<open>try\<close> block of \<^verbatim>\<open>translate\<close>: \<open>Inl e\<close> when a statement of the block raised \<open>e\<close>,
  \<open>Inr d\<close> when the block returned the dictionary \<open>d\<close>. The device is \<^verbatim>\<open>"cpu"\<close>, so the
  inputs are not moved. \<^verbatim>\<open>with None:\<close> (torch missing) raises the \<^verbatim>\<open>TypeError\<close> of
  Python 3.11 and later. The true division \<^verbatim>\<open>n / (duration_ms / 1000)\<close> raises
  \<^verbatim>\<open>ZeroDivisionError\<close> when \<^verbatim>\<open>duration_ms\<close> is 0, while the result dictionary is being built.
\<close>

definition translate_try ::
    "('i, 'o) env \<Rightarrow> pystr \<Rightarrow> pystr \<Rightarrow> pystr \<Rightarrow> int \<Rightarrow> int \<Rightarrow> rat \<Rightarrow> world \<Rightarrow> (exn + pydict) \<times> world" where
  "translate_try env text source_lang target_lang max_length num_beams start_time w =
     (let input_text = source_lang @ lit '': '' @ text;
          w1 = record_call (Tokenize input_text) w
      in case tokenizer env input_text of
           Inl e \<Rightarrow> (Inl e, w1)
         | Inr inputs \<Rightarrow>
             if \<not> TORCH_AVAILABLE env then
               (Inl (Exception ([39] @ lit ''NoneType'' @ [39] @
                      lit '' object does not support the context manager protocol'')), w1)
             else
               let w2 = record_call (Generate max_length num_beams) w1
               in case generate env inputs max_length num_beams of
                    Inl e \<Rightarrow> (Inl e, w2)
                  | Inr outputs \<Rightarrow>
                      let w3 = record_call Decode w2
                      in case decode env outputs of
                           Inl e \<Rightarrow> (Inl e, w3)
                         | Inr translated_text \<Rightarrow>
                             let (now, w4) = time_time env w3;
                                 duration_ms = elapsed_ms start_time now;
                                 word_count = length (split text)
                             in if duration_ms = 0 then
                                  (Inl (Exception (lit ''float division by zero'')), w4)
                                else
                                  (Inr [(lit ''success'', VBool True),
                                        (lit ''translated_text'', VStr translated_text),
                                        (lit ''source_lang'', VStr source_lang),
                                        (lit ''target_lang'', VStr target_lang),
                                        (lit ''duration_ms'', VInt duration_ms),
                                        (lit ''word_count'', VInt (int word_count)),
                                        (lit ''inference_speed'',
                                           VStr (format_speed env word_count duration_ms @
                                                 lit '' words/sec''))], w4))"

definition translate ::
    "('i, 'o) env \<Rightarrow> pystr \<Rightarrow> pystr \<Rightarrow> pystr \<Rightarrow> int \<Rightarrow> int \<Rightarrow> world \<Rightarrow> pydict \<times> world" where
  "translate env text source_lang target_lang max_length num_beams w0 =
     (let (start_time, w1) = time_time env w0;
          (is_valid, error_msg) = validate_input w1 text source_lang target_lang 500
      in if \<not> is_valid then
           (let (now, w2) = time_time env w1
            in (failure (optional_str error_msg) (elapsed_ms start_time now), w2))
         else if \<not> model_loaded w1 then
           (let (now, w2) = time_time env w1
            in (failure (VStr (lit ''Model not loaded. Call load_model() first.''))
                  (elapsed_ms start_time now), w2))
         else
           (case translate_try env text source_lang target_lang max_length num_beams start_time w1 of
              (Inr result, w2) \<Rightarrow> (result, w2)
            | (Inl e, w2) \<Rightarrow>
                (let (now, w3) = time_time env w2
                 in (failure (VStr (str_of e)) (elapsed_ms start_time now), w3))))"

text \<open>The loop of \<^verbatim>\<open>batch_translate\<close>, with \<^verbatim>\<open>results\<close> as its accumulator.\<close>

primrec batch_loop ::
    "('i, 'o) env \<Rightarrow> pystr list \<Rightarrow> pystr \<Rightarrow> pystr \<Rightarrow> pydict list \<Rightarrow> world \<Rightarrow> pydict list \<times> world" where
  "batch_loop env [] source_lang target_lang results w = (results, w)"
| "batch_loop env (text # texts) source_lang target_lang results w =
     (let (result, w') = translate env text source_lang target_lang 256 4 w
      in batch_loop env texts source_lang target_lang (results @ [result]) w')"

definition batch_translate ::
    "('i, 'o) env \<Rightarrow> pystr list \<Rightarrow> pystr \<Rightarrow> pystr \<Rightarrow> world \<Rightarrow> pydict list \<times> world" where
  "batch_translate env texts source_lang target_lang w =
     batch_loop env texts source_lang target_lang [] w"

text \<open>
  \<^verbatim>\<open>get_supported_languages\<close>: \<^verbatim>\<open>dict.copy()\<close> allocates a new dictionary object with the
  entries of the registry and returns a reference to it.
\<close>

definition get_supported_languages :: "world \<Rightarrow> nat \<times> world" where
  "get_supported_languages w =
     (next_addr w,
      w\<lparr>heap := (heap w)(next_addr w := heap w registry), next_addr := Suc (next_addr w)\<rparr>)"

definition keys :: "pydict \<Rightarrow> pystr list" where
  "keys d = remdups (map fst d)"

definition get_model_info :: "('i, 'o) env \<Rightarrow> world \<Rightarrow> pydict" where
  "get_model_info env w =
     (let info = [(lit ''model_dir'', VStr (lit ''models/translation/IndicTrans2'')),
                  (lit ''model_loaded'', VBool (model_loaded w)),
                  (lit ''device'', VStr (lit ''cpu'')),
                  (lit ''supported_languages'', VInt (int (len (heap w registry)))),
                  (lit ''languages'', VList (map VStr (keys (heap w registry))))]
      in if model_dir_exists env then
           (case total_size_gb env of
              Inr gb \<Rightarrow> info @ [(lit ''total_size_gb'', VFloat gb)]
            | Inl e \<Rightarrow> info)
         else info)"

section \<open>api_wrapper.py: the request envelope\<close>

definition initialize :: "('i, 'o) env \<Rightarrow> world \<Rightarrow> bool \<times> world" where
  "initialize env w =
     (if initialized w then (True, w)
      else
        let (loaded, w') = load_model env w in
        if loaded then (True, w'\<lparr>initialized := True\<rparr>) else (False, w'))"

text \<open>
  \<^verbatim>\<open>handle_translate_request\<close>. The three parameters are extracted first, in the order
  of the source; an exception raised there is caught by the handler at the end of the
  function, which answers with its message.
\<close>

definition handle_translate_request :: "('i, 'o) env \<Rightarrow> pydict \<Rightarrow> world \<Rightarrow> pydict \<times> world" where
  "handle_translate_request env request_data w =
     (case str_method strip ''strip'' (dict_get request_data (lit ''text'') (VStr [])) of
        Inl e \<Rightarrow> (error_response (str_of e), w)
      | Inr text \<Rightarrow>
     (case str_method (lower (unicode_lower env)) ''lower''
             (dict_get request_data (lit ''source_lang'') (VStr [])) of
        Inl e \<Rightarrow> (error_response (str_of e), w)
      | Inr source_lang \<Rightarrow>
     (case str_method (lower (unicode_lower env)) ''lower''
             (dict_get request_data (lit ''target_lang'') (VStr [])) of
        Inl e \<Rightarrow> (error_response (str_of e), w)
      | Inr target_lang \<Rightarrow>
          if text = [] then
            (error_response (lit ''Text parameter is required and cannot be empty''), w)
          else if source_lang = [] \<or> target_lang = [] then
            (error_response (lit ''source_lang and target_lang parameters are required''), w)
          else
            let (ready, w1) = (if \<not> initialized w then initialize env w else (True, w))
            in if \<not> ready then
                 (error_response (lit ''Failed to initialize translation model''), w1)
               else translate env text source_lang target_lang 256 4 w1)))"

definition handle_languages_request :: "world \<Rightarrow> pydict \<times> world" where
  "handle_languages_request w =
     (let (languages, w') = get_supported_languages w
      in ([(lit ''success'', VBool True),
           (lit ''languages'', VRef languages),
           (lit ''count'', VInt (int (len (heap w' languages))))], w'))"

definition handle_status_request :: "('i, 'o) env \<Rightarrow> world \<Rightarrow> pydict \<times> world" where
  "handle_status_request env w =
     ([(lit ''success'', VBool True),
       (lit ''status'', VStr (if initialized w then lit ''ready'' else lit ''not_initialized'')),
       (lit ''model_info'', VDict (get_model_info env w))], w)"

section \<open>Reachable states\<close>

text \<open>
  \<open>reach env w K\<close>: the process can be in state \<open>w\<close> while its callers hold references to
  the dictionary objects at the addresses \<open>K\<close>. A run starts with the registry alone on
  the heap; each step is one call of an operation of the two modules, or a caller
  changing a dictionary it holds a reference to in any way (\<open>d\<close> is its new content).
\<close>

inductive reach :: "('i, 'o) env \<Rightarrow> world \<Rightarrow> nat set \<Rightarrow> bool" for env :: "('i, 'o) env" where
  start: "reach env init_world {}"
| load_model: "reach env w K \<Longrightarrow> reach env (snd (load_model env w)) K"
| translate:
    "reach env w K \<Longrightarrow>
     reach env (snd (translate env text source_lang target_lang max_length num_beams w)) K"
| batch_translate:
    "reach env w K \<Longrightarrow> reach env (snd (batch_translate env texts source_lang target_lang w)) K"
| get_supported_languages:
    "reach env w K \<Longrightarrow> get_supported_languages w = (a, w') \<Longrightarrow> reach env w' (insert a K)"
| initialize: "reach env w K \<Longrightarrow> reach env (snd (initialize env w)) K"
| handle_translate_request:
    "reach env w K \<Longrightarrow> reach env (snd (handle_translate_request env request_data w)) K"
| handle_languages_request:
    "reach env w K \<Longrightarrow> handle_languages_request w = (response, w') \<Longrightarrow>
     map_of response (lit ''languages'') = Some (VRef a) \<Longrightarrow> reach env w' (insert a K)"
| handle_status_request: "reach env w K \<Longrightarrow> reach env (snd (handle_status_request env w)) K"
| caller_mutates: "reach env w K \<Longrightarrow> a \<in> K \<Longrightarrow> reach env (w\<lparr>heap := (heap w)(a := d)\<rparr>) K"

text \<open>
  An environment to run the model in: a clock that advances 250 ms per reading, a backend
  that hands the tagged input through unchanged, a formatter that prints the whole part of
  the speed followed by \<^verbatim>\<open>.0\<close>, every dependency present.
\<close>

definition demo_env :: "(pystr, pystr) env" where
  "demo_env =
     \<lparr>clock = (\<lambda>k. of_nat k / 4),
      tokenizer = Inr, generate = (\<lambda>inputs max_length num_beams. Inr inputs), decode = Inr,
      format_speed = (\<lambda>n d. str_int (int n * 1000 div d) @ lit ''.0''),
      unicode_lower = (\<lambda>s. s),
      TRANSFORMERS_AVAILABLE = True, TORCH_AVAILABLE = True, model_dir_exists = True,
      from_pretrained_raises = False, total_size_gb = Inr 4\<rparr>"


text \<open>
  \<open>frame w w'\<close>: the step from \<open>w\<close> to \<open>w'\<close> touched neither the heap nor the two flags; it
  read the clock and called the backend at most.
\<close>

definition frame :: "world \<Rightarrow> world \<Rightarrow> bool" where
  "frame w w' \<longleftrightarrow>
     heap w' = heap w \<and> next_addr w' = next_addr w \<and> model_loaded w' = model_loaded w \<and>
     initialized w' = initialized w"

section \<open>The validator\<close>

lemma dropWhile_all_iff: "(\<forall>x\<in>set (dropWhile P s). P x) \<longleftrightarrow> (\<forall>x\<in>set s. P x)"
proof
  assume a: "\<forall>x\<in>set (dropWhile P s). P x"
  have "dropWhile P s = []"
  proof (rule ccontr)
    assume n: "dropWhile P s \<noteq> []"
    then have "\<not> P (hd (dropWhile P s))" by (rule hd_dropWhile)
    moreover from n have "hd (dropWhile P s) \<in> set (dropWhile P s)" by simp
    ultimately show False using a by blast
  qed
  then show "\<forall>x\<in>set s. P x" by (simp add: dropWhile_eq_Nil_conv)
next
  assume "\<forall>x\<in>set s. P x"
  then show "\<forall>x\<in>set (dropWhile P s). P x" by (blast dest: set_dropWhileD)
qed

lemma strip_empty_iff: "strip s = [] \<longleftrightarrow> list_all isspace s"
  unfolding strip_def by (simp add: dropWhile_eq_Nil_conv dropWhile_all_iff list_all_iff)

lemma blank_iff: "(text = [] \<or> strip text = []) \<longleftrightarrow> list_all isspace text"
  by (auto simp: strip_empty_iff)

text \<open>
  Claim C1. \<open>validate_input\<close> checks its five rules in the order empty text, word count,
  unsupported source, unsupported target, same language, and the first rule that fails
  gives the message: a text that is empty or all whitespace gets
  \<^verbatim>\<open>Text cannot be empty\<close> whatever the language codes and the limit are; each later
  message is returned exactly when all earlier rules pass and its own rule fails; when
  all five pass the result is \<open>(True, None)\<close>.
\<close>

theorem validate_input_rule_order:
  "(list_all isspace text \<longrightarrow>
      (\<forall>source_lang target_lang max_words.
         validate_input w text source_lang target_lang max_words =
           (False, Some (lit ''Text cannot be empty''))))
   \<and> (\<not> list_all isspace text \<and> max_words < int (length (split (strip text))) \<longrightarrow>
        validate_input w text source_lang target_lang max_words =
          (False, Some (lit ''Text exceeds maximum of '' @ str_int max_words @
                        lit '' words (got '' @ str_int (int (length (split (strip text)))) @ lit '')'')))
   \<and> (\<not> list_all isspace text \<and> int (length (split (strip text))) \<le> max_words \<and>
        \<not> contains (heap w registry) source_lang \<longrightarrow>
        validate_input w text source_lang target_lang max_words =
          (False, Some (lit ''Unsupported source language: '' @ source_lang)))
   \<and> (\<not> list_all isspace text \<and> int (length (split (strip text))) \<le> max_words \<and>
        contains (heap w registry) source_lang \<and> \<not> contains (heap w registry) target_lang \<longrightarrow>
        validate_input w text source_lang target_lang max_words =
          (False, Some (lit ''Unsupported target language: '' @ target_lang)))
   \<and> (\<not> list_all isspace text \<and> int (length (split (strip text))) \<le> max_words \<and>
        contains (heap w registry) source_lang \<and> contains (heap w registry) target_lang \<and>
        source_lang = target_lang \<longrightarrow>
        validate_input w text source_lang target_lang max_words =
          (False, Some (lit ''Source and target languages must be different'')))
   \<and> (\<not> list_all isspace text \<and> int (length (split (strip text))) \<le> max_words \<and>
        contains (heap w registry) source_lang \<and> contains (heap w registry) target_lang \<and>
        source_lang \<noteq> target_lang \<longrightarrow>
        validate_input w text source_lang target_lang max_words = (True, None))"
  unfolding validate_input_def blank_iff by (simp add: Let_def)


lemma lit_append: "lit a @ lit b = lit (a @ b)"
  by (simp add: lit_def)

theorem validate_input_rule_order_witness:
  "validate_input init_world (lit ''  '') (lit ''xx'') (lit ''xx'') 500 =
     (False, Some (lit ''Text cannot be empty''))
   \<and> validate_input init_world (lit ''a b c'') (lit ''xx'') (lit ''xx'') 2 =
     (False, Some (lit ''Text exceeds maximum of 2 words (got 3)''))
   \<and> validate_input init_world (lit ''hello'') (lit ''xx'') (lit ''xx'') 500 =
     (False, Some (lit ''Unsupported source language: xx''))
   \<and> validate_input init_world (lit ''hello'') (lit ''en'') (lit ''xx'') 500 =
     (False, Some (lit ''Unsupported target language: xx''))
   \<and> validate_input init_world (lit ''hello'') (lit ''en'') (lit ''en'') 500 =
     (False, Some (lit ''Source and target languages must be different''))
   \<and> validate_input init_world (lit ''hello'') (lit ''en'') (lit ''hi'') 500 = (True, None)"
proof (intro conjI)
  show "validate_input init_world (lit ''  '') (lit ''xx'') (lit ''xx'') 500 =
     (False, Some (lit ''Text cannot be empty''))"
    using validate_input_rule_order [of "lit ''  ''" init_world]
    by (simp add: lit_def isspace_def)
  show "validate_input init_world (lit ''a b c'') (lit ''xx'') (lit ''xx'') 2 =
     (False, Some (lit ''Text exceeds maximum of 2 words (got 3)''))"
    using validate_input_rule_order [of "lit ''a b c''" init_world 2 "lit ''xx''" "lit ''xx''", THEN conjunct2, THEN conjunct1]
    by (simp add: lit_def strip_def split_def isspace_def str_int_def)
  have en: "contains (heap init_world registry) (lit ''en'')"
    and hi: "contains (heap init_world registry) (lit ''hi'')"
    and xx: "\<not> contains (heap init_world registry) (lit ''xx'')"
    by (simp_all add: lit_def init_world_def contains_def SUPPORTED_LANGUAGES_def)
  have hello: "\<not> list_all isspace (lit ''hello'') \<and> int (length (split (strip (lit ''hello'')))) \<le> 500"
    by (simp add: lit_def strip_def split_def isspace_def)
  show "validate_input init_world (lit ''hello'') (lit ''xx'') (lit ''xx'') 500 =
     (False, Some (lit ''Unsupported source language: xx''))"
    using validate_input_rule_order [of "lit ''hello''" init_world 500 "lit ''xx''" "lit ''xx''"] hello xx
    by (simp add: lit_append)
  show "validate_input init_world (lit ''hello'') (lit ''en'') (lit ''xx'') 500 =
     (False, Some (lit ''Unsupported target language: xx''))"
    using validate_input_rule_order [of "lit ''hello''" init_world 500 "lit ''en''" "lit ''xx''"] hello xx en
    by (simp add: lit_append)
  show "validate_input init_world (lit ''hello'') (lit ''en'') (lit ''en'') 500 =
     (False, Some (lit ''Source and target languages must be different''))"
    using validate_input_rule_order [of "lit ''hello''" init_world 500 "lit ''en''" "lit ''en''"] hello en
    by simp
  have "lit ''en'' \<noteq> lit ''hi''" by (simp add: lit_def)
  then show "validate_input init_world (lit ''hello'') (lit ''en'') (lit ''hi'') 500 = (True, None)"
    using validate_input_rule_order [of "lit ''hello''" init_world 500 "lit ''en''" "lit ''hi''"] hello en hi
    by simp
qed

text \<open>
  Claim C8, as amended. For every text that is not empty or all whitespace and whose
  word count after trimming exceeds \<open>max_words\<close>, \<open>validate_input\<close> returns the error
  \<^verbatim>\<open>Text exceeds maximum of {max_words} words (got {word_count})\<close> with the limit and the
  observed count substituted.
\<close>

theorem validate_input_length_error:
  assumes "\<not> list_all isspace text"
    and "max_words < int (length (split (strip text)))"
  shows "validate_input w text source_lang target_lang max_words =
    (False, Some (lit ''Text exceeds maximum of '' @ str_int max_words @ lit '' words (got '' @
                  str_int (int (length (split (strip text)))) @ lit '')''))"
  using assms unfolding validate_input_def blank_iff by (simp add: Let_def)

theorem validate_input_length_error_witness:
  "\<not> list_all isspace (lit ''a b c'') \<and> 2 < int (length (split (strip (lit ''a b c'')))) \<and>
   validate_input init_world (lit ''a b c'') (lit ''en'') (lit ''hi'') 2 =
     (False, Some (lit ''Text exceeds maximum of 2 words (got 3)''))"
proof -
  have h1: "\<not> list_all isspace (lit ''a b c'')"
    by (simp add: lit_def isspace_def)
  have h2: "2 < int (length (split (strip (lit ''a b c''))))"
    by (simp add: lit_def strip_def split_def isspace_def)
  have n: "length (split (strip (lit ''a b c''))) = 3"
    by (simp add: lit_def strip_def split_def isspace_def)
  have s: "str_int 2 = lit ''2''" "str_int 3 = lit ''3''"
    by (simp_all add: str_int_def lit_def)
  show ?thesis
    using validate_input_length_error [OF h1 h2, of init_world "lit ''en''" "lit ''hi''"] h1 h2
    by (simp add: n s lit_append)
qed

text \<open>
  The claim as written fails for a negative limit: the empty text has 0 words, more than
  \<open>-1\<close>, and is answered by the first rule.
\<close>

theorem validate_input_length_counterexample:
  "- 1 < int (length (split (strip []))) \<and>
   validate_input init_world [] (lit ''en'') (lit ''hi'') (- 1) =
     (False, Some (lit ''Text cannot be empty'')) \<and>
   validate_input init_world [] (lit ''en'') (lit ''hi'') (- 1) \<noteq>
     (False, Some (lit ''Text exceeds maximum of '' @ str_int (- 1) @ lit '' words (got '' @
                   str_int (int (length (split (strip [])))) @ lit '')''))"
  by (simp add: validate_input_def strip_def split_def lit_def)

section \<open>The paths of translate\<close>

lemma validate_input_ticks:
  "validate_input (w\<lparr>ticks := n\<rparr>) text s t m = validate_input w text s t m"
proof -
  have "heap (w\<lparr>ticks := n\<rparr>) = heap w" by simp
  then show ?thesis unfolding validate_input_def by (simp only:)
qed







lemma translate_not_loaded:
  assumes "validate_input w text source_lang target_lang 500 = (True, e)"
    and "\<not> model_loaded w"
  shows "translate env text source_lang target_lang max_length num_beams w =
    (failure (VStr (lit ''Model not loaded. Call load_model() first.''))
       (elapsed_ms (clock env (ticks w)) (clock env (Suc (ticks w)))),
     w\<lparr>ticks := Suc (Suc (ticks w))\<rparr>)"
  unfolding translate_def time_time_def
  by (simp add: assms validate_input_ticks)

lemma translate_loaded:
  assumes "validate_input w text source_lang target_lang 500 = (True, e)"
    and "model_loaded w"
  shows "translate env text source_lang target_lang max_length num_beams w =
    (case translate_try env text source_lang target_lang max_length num_beams
            (clock env (ticks w)) (w\<lparr>ticks := Suc (ticks w)\<rparr>) of
       (Inr result, w2) \<Rightarrow> (result, w2)
     | (Inl e, w2) \<Rightarrow>
         (failure (VStr (str_of e)) (elapsed_ms (clock env (ticks w)) (clock env (ticks w2))),
          w2\<lparr>ticks := Suc (ticks w2)\<rparr>))"
  unfolding translate_def time_time_def
  by (simp add: assms validate_input_ticks split: prod.splits sum.splits)




lemma try_decode_returns:
  assumes "tokenizer env (source_lang @ lit '': '' @ text) = Inr inputs"
    and "TORCH_AVAILABLE env"
    and "generate env inputs max_length num_beams = Inr outputs"
    and "decode env outputs = Inr translated_text"
  shows "translate_try env text source_lang target_lang max_length num_beams start_time w =
    (let w3 = record_call Decode (record_call (Generate max_length num_beams)
              (record_call (Tokenize (source_lang @ lit '': '' @ text)) w));
         duration_ms = elapsed_ms start_time (clock env (ticks w3))
     in (if duration_ms = 0 then Inl (Exception (lit ''float division by zero''))
         else Inr [(lit ''success'', VBool True),
                   (lit ''translated_text'', VStr translated_text),
                   (lit ''source_lang'', VStr source_lang),
                   (lit ''target_lang'', VStr target_lang),
                   (lit ''duration_ms'', VInt duration_ms),
                   (lit ''word_count'', VInt (int (length (split text)))),
                   (lit ''inference_speed'',
                      VStr (format_speed env (length (split text)) duration_ms @
                            lit '' words/sec''))],
         w3\<lparr>ticks := Suc (ticks w3)\<rparr>))"
  unfolding translate_try_def time_time_def by (simp add: assms Let_def)

lemma ticks_record_call: "ticks (record_call c w) = ticks w"
  by (simp add: record_call_def)


lemma validate_hello:
  "heap w registry = SUPPORTED_LANGUAGES \<Longrightarrow>
   validate_input w (lit ''hello'') (lit ''en'') (lit ''hi'') 500 = (True, None)"
  by (simp add: validate_input_def lit_def strip_def split_def isspace_def contains_def
      SUPPORTED_LANGUAGES_def)

lemma heap_init_world: "heap init_world registry = SUPPORTED_LANGUAGES"
  by (simp add: init_world_def)

lemma demo_elapsed: "elapsed_ms (clock demo_env k) (clock demo_env (Suc k)) = 250"
  by (simp add: demo_env_def elapsed_ms_def py_int_def field_simps)




text \<open>
  Claim C7. When the input passes validation and the model is not loaded, \<open>translate\<close>
  returns the failure \<^verbatim>\<open>Model not loaded. Call load_model() first.\<close> with a
  \<^verbatim>\<open>duration_ms\<close>, and attempts no generation: the log of backend calls is unchanged.
\<close>

theorem translate_model_not_loaded:
  assumes "fst (validate_input w text source_lang target_lang 500)"
    and "\<not> model_loaded w"
  shows "translate env text source_lang target_lang max_length num_beams w =
      ([(lit ''success'', VBool False),
        (lit ''error'', VStr (lit ''Model not loaded. Call load_model() first.'')),
        (lit ''duration_ms'',
           VInt (elapsed_ms (clock env (ticks w)) (clock env (Suc (ticks w)))))],
       w\<lparr>ticks := Suc (Suc (ticks w))\<rparr>) \<and>
    calls (snd (translate env text source_lang target_lang max_length num_beams w)) = calls w"
proof -
  obtain e where v: "validate_input w text source_lang target_lang 500 = (True, e)"
    using assms(1) by (cases "validate_input w text source_lang target_lang 500") simp
  show ?thesis
    using translate_not_loaded [OF v assms(2), of env max_length num_beams]
    by (simp add: failure_def)
qed

theorem translate_model_not_loaded_witness:
  "fst (validate_input init_world (lit ''hello'') (lit ''en'') (lit ''hi'') 500) \<and>
   \<not> model_loaded init_world \<and>
   translate demo_env (lit ''hello'') (lit ''en'') (lit ''hi'') 256 4 init_world =
     ([(lit ''success'', VBool False),
       (lit ''error'', VStr (lit ''Model not loaded. Call load_model() first.'')),
       (lit ''duration_ms'', VInt 250)], init_world\<lparr>ticks := 2\<rparr>)"
proof -
  have v: "fst (validate_input init_world (lit ''hello'') (lit ''en'') (lit ''hi'') 500)"
    by (simp add: validate_hello heap_init_world)
  have l: "\<not> model_loaded init_world" and t: "ticks init_world = 0"
    by (simp_all add: init_world_def)
  show ?thesis
    using translate_model_not_loaded [OF v l, of demo_env 256 4] v l demo_elapsed [of 0]
    by (simp add: t numeral_2_eq_2)
qed



text \<open>
  When the backend returns and the truncated duration is not 0, the success dictionary
  carries the word count of the original text and the formatted speed.
\<close>

lemma translate_success:
  assumes "fst (validate_input w text source_lang target_lang 500)"
    and "model_loaded w"
    and "tokenizer env (source_lang @ lit '': '' @ text) = Inr inputs"
    and "TORCH_AVAILABLE env"
    and "generate env inputs max_length num_beams = Inr outputs"
    and "decode env outputs = Inr translated_text"
    and "elapsed_ms (clock env (ticks w)) (clock env (Suc (ticks w))) = d"
  shows "fst (translate env text source_lang target_lang max_length num_beams w) =
     (if d = 0 then
        [(lit ''success'', VBool False), (lit ''error'', VStr (lit ''float division by zero'')),
         (lit ''duration_ms'',
            VInt (elapsed_ms (clock env (ticks w)) (clock env (Suc (Suc (ticks w))))))]
      else
        [(lit ''success'', VBool True),
         (lit ''translated_text'', VStr translated_text),
         (lit ''source_lang'', VStr source_lang),
         (lit ''target_lang'', VStr target_lang),
         (lit ''duration_ms'', VInt d),
         (lit ''word_count'', VInt (int (length (split text)))),
         (lit ''inference_speed'',
            VStr (format_speed env (length (split text)) d @ lit '' words/sec''))])"
proof -
  obtain m where v: "validate_input w text source_lang target_lang 500 = (True, m)"
    using assms(1) by (cases "validate_input w text source_lang target_lang 500") simp
  show ?thesis
    using assms(7)
    by (simp add: translate_loaded [OF v assms(2)]
        try_decode_returns [OF assms(3) assms(4) assms(5) assms(6)]
        ticks_record_call failure_def Let_def)
qed

text \<open>
  Claim C2 (the code departs from it). The division that computes \<^verbatim>\<open>inference_speed\<close>
  has no guard. With a loaded model, a valid text and a backend that returns its
  translation, two clock readings less than a millisecond apart give \<^verbatim>\<open>duration_ms = 0\<close>;
  the division raises \<^verbatim>\<open>ZeroDivisionError\<close> inside the \<^verbatim>\<open>try\<close> block, and the translation
  that succeeded is reported as a failure.
\<close>

theorem translate_zero_duration:
  "fst (validate_input (init_world\<lparr>model_loaded := True\<rparr>) (lit ''hello'') (lit ''en'') (lit ''hi'') 500) \<and>
   decode (demo_env\<lparr>clock := (\<lambda>k. 5)\<rparr>) (lit ''en: hello'') = Inr (lit ''en: hello'') \<and>
   fst (translate (demo_env\<lparr>clock := (\<lambda>k. 5)\<rparr>) (lit ''hello'') (lit ''en'') (lit ''hi'') 256 4
          (init_world\<lparr>model_loaded := True\<rparr>)) =
     [(lit ''success'', VBool False), (lit ''error'', VStr (lit ''float division by zero'')),
      (lit ''duration_ms'', VInt 0)]"
proof -
  let ?env = "demo_env\<lparr>clock := (\<lambda>k. 5)\<rparr>"
  let ?w = "init_world\<lparr>model_loaded := True\<rparr>"
  have v: "fst (validate_input ?w (lit ''hello'') (lit ''en'') (lit ''hi'') 500)"
    by (simp add: validate_hello heap_init_world)
  have l: "model_loaded ?w" by simp
  have b: "tokenizer ?env (lit ''en'' @ lit '': '' @ lit ''hello'') = Inr (lit ''en: hello'')"
    "TORCH_AVAILABLE ?env"
    "generate ?env (lit ''en: hello'') 256 4 = Inr (lit ''en: hello'')"
    "decode ?env (lit ''en: hello'') = Inr (lit ''en: hello'')"
    by (simp_all add: demo_env_def lit_append)
  have c: "elapsed_ms (clock ?env (ticks ?w)) (clock ?env (Suc (ticks ?w))) = 0"
    by (simp add: elapsed_ms_def py_int_def)
  show ?thesis
    using translate_success [OF v l b c] v b(4)
    by (simp add: elapsed_ms_def py_int_def)
qed

section \<open>Batches\<close>

lemma batch_loop_acc:
  "batch_loop env texts s t results w =
     (results @ fst (batch_loop env texts s t [] w), snd (batch_loop env texts s t [] w))"
proof (induction texts arbitrary: results w)
  case Nil
  show ?case by simp
next
  case (Cons x texts)
  show ?case
    by (simp add: split_beta Cons.IH [of "results @ [fst (translate env x s t 256 4 w)]"]
        Cons.IH [of "[fst (translate env x s t 256 4 w)]"])
qed

lemma batch_translate_Nil: "batch_translate env [] s t w = ([], w)"
  by (simp add: batch_translate_def)

lemma batch_translate_Cons:
  "batch_translate env (text # texts) s t w =
     (fst (translate env text s t 256 4 w) #
        fst (batch_translate env texts s t (snd (translate env text s t 256 4 w))),
      snd (batch_translate env texts s t (snd (translate env text s t 256 4 w))))"
  unfolding batch_translate_def
  by (simp add: split_beta batch_loop_acc [of env texts s t "[fst (translate env text s t 256 4 w)]"])




text \<open>What \<open>translate\<close> and a batch leave untouched.\<close>

lemma frame_refl: "frame w w"
  by (simp add: frame_def)

lemma frame_trans: "frame w w' \<Longrightarrow> frame w' w'' \<Longrightarrow> frame w w''"
  by (simp add: frame_def)

lemma frame_ticks: "frame w (w\<lparr>ticks := n\<rparr>)"
  by (simp add: frame_def)

lemma frame_record_call: "frame w (record_call c w)"
  by (simp add: frame_def record_call_def)

lemma frame_translate_try:
  "frame w (snd (translate_try env text s t ml nb st w))"
  unfolding translate_try_def time_time_def Let_def
  by (simp add: frame_def record_call_def split: sum.splits prod.splits)

lemma frame_translate: "frame w (snd (translate env text s t ml nb w))"
proof -
  have a: "frame w (w\<lparr>ticks := Suc (ticks w)\<rparr>)" by (rule frame_ticks)
  have b: "frame (w\<lparr>ticks := Suc (ticks w)\<rparr>)
             (snd (translate_try env text s t ml nb (clock env (ticks w)) (w\<lparr>ticks := Suc (ticks w)\<rparr>)))"
    by (rule frame_translate_try)
  show ?thesis
    using frame_trans [OF a b]
    unfolding translate_def time_time_def
    by (auto simp: frame_def split: prod.splits sum.splits)
qed

lemma frame_batch_translate: "frame w (snd (batch_translate env texts s t w))"
proof (induction texts arbitrary: w)
  case Nil
  show ?case by (simp add: batch_translate_Nil frame_refl)
next
  case (Cons x texts)
  show ?case
    using frame_trans [OF frame_translate Cons.IH]
    by (simp add: batch_translate_Cons)
qed



section \<open>The request envelope\<close>

lemma lower_Nil: "lower f [] = []"
  by (simp add: lower_def)

text \<open>The envelope when the three fields, where present, are strings.\<close>

lemma handle_translate_request_strings:
  assumes "dict_get request_data (lit ''text'') (VStr []) = VStr text0"
    and "dict_get request_data (lit ''source_lang'') (VStr []) = VStr s0"
    and "dict_get request_data (lit ''target_lang'') (VStr []) = VStr t0"
  shows "handle_translate_request env request_data w =
    (if strip text0 = [] then
       (error_response (lit ''Text parameter is required and cannot be empty''), w)
     else if lower (unicode_lower env) s0 = [] \<or> lower (unicode_lower env) t0 = [] then
       (error_response (lit ''source_lang and target_lang parameters are required''), w)
     else
       let (ready, w1) = (if \<not> initialized w then initialize env w else (True, w))
       in if \<not> ready then
            (error_response (lit ''Failed to initialize translation model''), w1)
          else translate env (strip text0) (lower (unicode_lower env) s0)
                 (lower (unicode_lower env) t0) 256 4 w1)"
  unfolding handle_translate_request_def
  by (simp only: assms str_method_def pyval.case sum.case)

text \<open>
  Claim C6, as amended. For a request whose \<^verbatim>\<open>text\<close>, \<^verbatim>\<open>source_lang\<close> and \<^verbatim>\<open>target_lang\<close>
  fields are strings where present (a missing field counts as the empty string): if the
  text is empty after trimming, the answer is the error
  \<^verbatim>\<open>Text parameter is required and cannot be empty\<close>; otherwise, if a language code is
  missing or empty, it is \<^verbatim>\<open>source_lang and target_lang parameters are required\<close>; both
  without any call beyond the envelope (the state is unchanged). Otherwise the envelope
  initializes the model if need be and calls \<open>translate\<close> with the trimmed text and the
  lowercased codes.
\<close>

theorem handle_translate_request_parameters:
  assumes "dict_get request_data (lit ''text'') (VStr []) = VStr text0"
    and "dict_get request_data (lit ''source_lang'') (VStr []) = VStr s0"
    and "dict_get request_data (lit ''target_lang'') (VStr []) = VStr t0"
  shows
    "(strip text0 = [] \<longrightarrow>
        handle_translate_request env request_data w =
          ([(lit ''success'', VBool False),
            (lit ''error'', VStr (lit ''Text parameter is required and cannot be empty''))], w))
     \<and> (strip text0 \<noteq> [] \<and> (s0 = [] \<or> t0 = []) \<longrightarrow>
        handle_translate_request env request_data w =
          ([(lit ''success'', VBool False),
            (lit ''error'', VStr (lit ''source_lang and target_lang parameters are required''))], w))
     \<and> (strip text0 \<noteq> [] \<and> lower (unicode_lower env) s0 \<noteq> [] \<and>
         lower (unicode_lower env) t0 \<noteq> [] \<longrightarrow>
        handle_translate_request env request_data w =
          (let (ready, w1) = (if \<not> initialized w then initialize env w else (True, w))
           in if \<not> ready then
                ([(lit ''success'', VBool False),
                  (lit ''error'', VStr (lit ''Failed to initialize translation model''))], w1)
              else translate env (strip text0) (lower (unicode_lower env) s0)
                     (lower (unicode_lower env) t0) 256 4 w1))"
  unfolding handle_translate_request_strings [OF assms] error_response_def
  by (auto simp: lower_Nil)


theorem handle_translate_request_parameters_witness:
  "handle_translate_request demo_env [] init_world =
     ([(lit ''success'', VBool False),
       (lit ''error'', VStr (lit ''Text parameter is required and cannot be empty''))], init_world)
   \<and> handle_translate_request demo_env [(lit ''text'', VStr (lit '' hello ''))] init_world =
     ([(lit ''success'', VBool False),
       (lit ''error'', VStr (lit ''source_lang and target_lang parameters are required''))],
      init_world)
   \<and> handle_translate_request demo_env
       [(lit ''text'', VStr (lit '' hello '')), (lit ''source_lang'', VStr (lit ''EN'')),
        (lit ''target_lang'', VStr (lit ''Hi''))]
       (init_world\<lparr>model_loaded := True, initialized := True\<rparr>) =
     translate demo_env (lit ''hello'') (lit ''en'') (lit ''hi'') 256 4
       (init_world\<lparr>model_loaded := True, initialized := True\<rparr>)"
proof (intro conjI)
  have g0: "dict_get [] (lit ''text'') (VStr []) = VStr []"
    "dict_get [] (lit ''source_lang'') (VStr []) = VStr []"
    "dict_get [] (lit ''target_lang'') (VStr []) = VStr []"
    by (simp_all add: dict_get_def)
  have s0: "strip [] = []" by (simp add: strip_def)
  show "handle_translate_request demo_env [] init_world =
     ([(lit ''success'', VBool False),
       (lit ''error'', VStr (lit ''Text parameter is required and cannot be empty''))], init_world)"
    using handle_translate_request_parameters [OF g0, of demo_env init_world] s0 by simp
next
  let ?r = "[(lit ''text'', VStr (lit '' hello ''))]"
  have g1: "dict_get ?r (lit ''text'') (VStr []) = VStr (lit '' hello '')"
    "dict_get ?r (lit ''source_lang'') (VStr []) = VStr []"
    "dict_get ?r (lit ''target_lang'') (VStr []) = VStr []"
    by (simp_all add: dict_get_def lit_def)
  have s1: "strip (lit '' hello '') \<noteq> []" by (simp add: strip_def lit_def isspace_def)
  show "handle_translate_request demo_env ?r init_world =
     ([(lit ''success'', VBool False),
       (lit ''error'', VStr (lit ''source_lang and target_lang parameters are required''))],
      init_world)"
    using handle_translate_request_parameters [OF g1, of demo_env init_world] s1 by simp
next
  let ?r = "[(lit ''text'', VStr (lit '' hello '')), (lit ''source_lang'', VStr (lit ''EN'')),
        (lit ''target_lang'', VStr (lit ''Hi''))]"
  let ?w = "init_world\<lparr>model_loaded := True, initialized := True\<rparr>"
  have g2: "dict_get ?r (lit ''text'') (VStr []) = VStr (lit '' hello '')"
    "dict_get ?r (lit ''source_lang'') (VStr []) = VStr (lit ''EN'')"
    "dict_get ?r (lit ''target_lang'') (VStr []) = VStr (lit ''Hi'')"
    by (simp_all add: dict_get_def lit_def)
  have s2: "strip (lit '' hello '') = lit ''hello''" by (simp add: strip_def lit_def isspace_def)
  have l2: "lower (unicode_lower demo_env) (lit ''EN'') = lit ''en''"
    "lower (unicode_lower demo_env) (lit ''Hi'') = lit ''hi''"
    by (simp_all add: lower_def ascii_lower_def lit_def)
  have n2: "lit ''hello'' \<noteq> []" "lit ''en'' \<noteq> []" "lit ''hi'' \<noteq> []"
    by (simp_all add: lit_def)
  show "handle_translate_request demo_env ?r ?w =
     translate demo_env (lit ''hello'') (lit ''en'') (lit ''hi'') 256 4 ?w"
    using handle_translate_request_parameters [OF g2, of demo_env ?w] n2
    by (simp add: s2 l2)
qed

text \<open>
  The claim as written fails when a language field is not a string: the parameters are
  extracted before the text is checked, \<^verbatim>\<open>(5).lower()\<close> raises, and the handler at the
  end of the function answers with that message although the text is empty.
\<close>

theorem handle_translate_request_parameters_counterexample:
  "dict_get [(lit ''text'', VStr []), (lit ''source_lang'', VInt 5)] (lit ''text'') (VStr []) = VStr [] \<and>
   strip [] = [] \<and>
   fst (handle_translate_request demo_env
          [(lit ''text'', VStr []), (lit ''source_lang'', VInt 5)] init_world) =
     [(lit ''success'', VBool False),
      (lit ''error'', VStr ([39] @ lit ''int'' @ [39] @ lit '' object has no attribute '' @
                            [39] @ lit ''lower'' @ [39]))] \<and>
   fst (handle_translate_request demo_env
          [(lit ''text'', VStr []), (lit ''source_lang'', VInt 5)] init_world) \<noteq>
     [(lit ''success'', VBool False),
      (lit ''error'', VStr (lit ''Text parameter is required and cannot be empty''))]"
  by (simp add: handle_translate_request_def dict_get_def str_method_def error_response_def
      strip_def lit_def)







lemma str_method_Inl:
  "str_method f name v = Inl e \<Longrightarrow> hd (str_of e) = 39"
  by (auto simp: str_method_def split: pyval.splits)

lemma str_method_Inr:
  "str_method f name v = Inr x \<Longrightarrow> \<exists>s. v = VStr s \<and> x = f s"
  by (auto simp: str_method_def split: pyval.splits)


lemma handle_translate_request_cases:
  obtains (raised) e where
      "handle_translate_request env request_data w = (error_response (str_of e), w)"
      "hd (str_of e) = 39"
  | (strings) text0 s0 t0 where
      "dict_get request_data (lit ''text'') (VStr []) = VStr text0"
      "dict_get request_data (lit ''source_lang'') (VStr []) = VStr s0"
      "dict_get request_data (lit ''target_lang'') (VStr []) = VStr t0"
proof (cases "str_method strip ''strip'' (dict_get request_data (lit ''text'') (VStr []))")
  case (Inl e)
  then have "handle_translate_request env request_data w = (error_response (str_of e), w)"
    by (simp add: handle_translate_request_def)
  with Inl show ?thesis using raised str_method_Inl by blast
next
  case stripped: (Inr x)
  show ?thesis
  proof (cases "str_method (lower (unicode_lower env)) ''lower''
                  (dict_get request_data (lit ''source_lang'') (VStr []))")
    case (Inl e)
    then have "handle_translate_request env request_data w = (error_response (str_of e), w)"
      by (simp add: handle_translate_request_def stripped)
    with Inl show ?thesis using raised str_method_Inl by blast
  next
    case src: (Inr source_lang)
    show ?thesis
    proof (cases "str_method (lower (unicode_lower env)) ''lower''
                    (dict_get request_data (lit ''target_lang'') (VStr []))")
      case (Inl e)
      then have "handle_translate_request env request_data w = (error_response (str_of e), w)"
        by (simp add: handle_translate_request_def stripped src)
      with Inl show ?thesis using raised str_method_Inl by blast
    next
      case tgt: (Inr target_lang)
      from stripped src tgt show ?thesis
        using strings str_method_Inr by metis
    qed
  qed
qed





section \<open>The registry\<close>

text \<open>
  Only \<open>get_supported_languages\<close> allocates, and it writes to the fresh address alone;
  loading and initializing change the two flags and the clock.
\<close>

lemma heap_load_model:
  "heap (snd (load_model env w)) = heap w \<and> next_addr (snd (load_model env w)) = next_addr w"
  by (simp add: load_model_def time_time_def Let_def)

lemma heap_initialize:
  "heap (snd (initialize env w)) = heap w \<and> next_addr (snd (initialize env w)) = next_addr w"
  using heap_load_model [of env w]
  by (simp add: initialize_def split_beta)

lemma heap_translate:
  "heap (snd (translate env text s t ml nb w)) = heap w \<and>
   next_addr (snd (translate env text s t ml nb w)) = next_addr w"
  using frame_translate [of w env "text" s t ml nb] by (simp add: frame_def)

lemma heap_batch_translate:
  "heap (snd (batch_translate env texts s t w)) = heap w \<and>
   next_addr (snd (batch_translate env texts s t w)) = next_addr w"
  using frame_batch_translate [of w env texts s t] by (simp add: frame_def)

lemma heap_handle_translate_request:
  "heap (snd (handle_translate_request env request_data w)) = heap w \<and>
   next_addr (snd (handle_translate_request env request_data w)) = next_addr w"
proof (cases rule: handle_translate_request_cases [of env request_data w])
  case (raised e)
  then show ?thesis by simp
next
  case (strings text0 s0 t0)
  show ?thesis
    using heap_initialize [of env w]
      heap_translate [of env "strip text0" "lower (unicode_lower env) s0"
        "lower (unicode_lower env) t0" 256 4 w]
      heap_translate [of env "strip text0" "lower (unicode_lower env) s0"
        "lower (unicode_lower env) t0" 256 4 "snd (initialize env w)"]
    by (simp add: handle_translate_request_strings [OF strings] split_beta)
qed

lemma len_SUPPORTED_LANGUAGES: "len SUPPORTED_LANGUAGES = 22"
  by (simp add: len_def SUPPORTED_LANGUAGES_def lit_def)

lemma reach_registry:
  assumes "reach env w K"
  shows "heap w registry = SUPPORTED_LANGUAGES \<and> registry < next_addr w \<and> registry \<notin> K"
  using assms
proof (induction rule: reach.induct)
  case start
  show ?case by (simp add: init_world_def)
next
  case (load_model w K)
  then show ?case using heap_load_model [of env w] by simp
next
  case (translate w K x source_lang target_lang max_length num_beams)
  then show ?case
    using heap_translate [of env x source_lang target_lang max_length num_beams w] by simp
next
  case (batch_translate w K texts source_lang target_lang)
  then show ?case using heap_batch_translate [of env texts source_lang target_lang w] by simp
next
  case (get_supported_languages w K a w')
  then show ?case by (auto simp: get_supported_languages_def)
next
  case (initialize w K)
  then show ?case using heap_initialize [of env w] by simp
next
  case (handle_translate_request w K request_data)
  then show ?case using heap_handle_translate_request [of env request_data w] by simp
next
  case (handle_languages_request w K response w' a)
  then show ?case
    by (auto simp: handle_languages_request_def get_supported_languages_def lit_def)
next
  case (handle_status_request w K)
  then show ?case by (simp add: handle_status_request_def)
next
  case (caller_mutates w K a d)
  then show ?case by auto
qed

text \<open>
  Claim C9. In every reachable state the registry object holds the 22 entries it was
  created with, and no caller holds a reference to it: \<open>handle_languages_request\<close> answers
  \<^verbatim>\<open>success: True\<close> with \<^verbatim>\<open>count\<close> 22 and a reference to a new dictionary, and
  \<open>get_supported_languages\<close> returns a new object with the entries of the registry, so that
  whatever is stored into the returned object, the registry stays as it is.
\<close>

theorem registry_fixed:
  assumes "reach env w K"
  shows "heap w registry = SUPPORTED_LANGUAGES \<and> len (heap w registry) = 22 \<and> registry \<notin> K \<and>
    fst (handle_languages_request w) =
      [(lit ''success'', VBool True), (lit ''languages'', VRef (next_addr w)),
       (lit ''count'', VInt 22)] \<and>
    fst (get_supported_languages w) \<noteq> registry \<and>
    heap (snd (get_supported_languages w)) (fst (get_supported_languages w)) =
      SUPPORTED_LANGUAGES \<and>
    (\<forall>d. heap ((snd (get_supported_languages w))
                 \<lparr>heap := (heap (snd (get_supported_languages w)))
                            (fst (get_supported_languages w) := d)\<rparr>) registry =
          SUPPORTED_LANGUAGES)"
proof -
  from reach_registry [OF assms]
  have h: "heap w registry = SUPPORTED_LANGUAGES" and n: "registry < next_addr w"
    and k: "registry \<notin> K"
    by simp_all
  from n have ne: "next_addr w \<noteq> registry" by simp
  show ?thesis
    using h k ne
    by (simp add: handle_languages_request_def get_supported_languages_def
        len_SUPPORTED_LANGUAGES)
qed

theorem registry_fixed_witness:
  "reach demo_env
     ((snd (get_supported_languages init_world))
        \<lparr>heap := (heap (snd (get_supported_languages init_world)))(Suc 0 := [])\<rparr>) {Suc 0} \<and>
   heap ((snd (get_supported_languages init_world))
        \<lparr>heap := (heap (snd (get_supported_languages init_world)))(Suc 0 := [])\<rparr>) registry =
     SUPPORTED_LANGUAGES \<and>
   fst (handle_languages_request
     ((snd (get_supported_languages init_world))
        \<lparr>heap := (heap (snd (get_supported_languages init_world)))(Suc 0 := [])\<rparr>)) =
     [(lit ''success'', VBool True), (lit ''languages'', VRef 2), (lit ''count'', VInt 22)]"
proof -
  let ?w1 = "snd (get_supported_languages init_world)"
  let ?w2 = "?w1\<lparr>heap := (heap ?w1)(Suc 0 := [])\<rparr>"
  have a: "get_supported_languages init_world = (Suc 0, ?w1)"
    by (simp add: get_supported_languages_def init_world_def registry_def)
  have r1: "reach demo_env ?w1 (insert (Suc 0) {})"
    by (rule reach.get_supported_languages [OF reach.start a])
  have r2: "reach demo_env ?w2 {Suc 0}"
    using reach.caller_mutates [OF r1, of "Suc 0" "[]"] by simp
  have n: "next_addr ?w2 = 2"
    by (simp add: get_supported_languages_def init_world_def registry_def)
  show ?thesis
    using registry_fixed [OF r2] r2 by (simp add: n registry_def)
qed

end
